theory Spec2Isabelle
  imports Complex_Main
begin

section \<open>Python values carried by the requests\<close>

text \<open>
  The handlers of \<^verbatim>\<open>app.py\<close> read their input with \<^verbatim>\<open>request.get_json()\<close> and
  never check its shape, so a request body is an arbitrary JSON value. A JSON object is
  kept as an association list in the order of its keys. A float is kept as the exact
  rational it denotes (rounding to binary64 is not modelled: the program stores and
  returns floats, it never computes with them), with the two infinities and NaN aside.
\<close>

datatype pyfloat = Fin rat | PInf | NInf | NaN

datatype json =
    JNull
  | JBool bool
  | JInt int
  | JFloat pyfloat
  | JStr string
  | JList "json list"
  | JObj "(string \<times> json) list"

datatype py_exn = ValueError | TypeError | AttributeError | OverflowError | IntegrityError

text \<open>Python's truth value of an object, as used by \<^verbatim>\<open>not x\<close>, \<^verbatim>\<open>x or y\<close>, \<^verbatim>\<open>if x\<close>
  and \<^verbatim>\<open>all([...])\<close>.\<close>

fun truthy :: "json \<Rightarrow> bool" where
  "truthy JNull = False"
| "truthy (JBool b) = b"
| "truthy (JInt n) = (n \<noteq> 0)"
| "truthy (JFloat (Fin q)) = (q \<noteq> 0)"
| "truthy (JFloat _) = True"
| "truthy (JStr s) = (s \<noteq> [])"
| "truthy (JList xs) = (xs \<noteq> [])"
| "truthy (JObj kvs) = (kvs \<noteq> [])"

text \<open>\<^verbatim>\<open>a or b\<close>\<close>

definition py_or :: "json \<Rightarrow> json \<Rightarrow> json" where
  "py_or a b = (if truthy a then a else b)"

text \<open>\<^verbatim>\<open>data = request.get_json() or {}\<close> followed by the first \<^verbatim>\<open>data.get(...)\<close>:
  a falsy body becomes the empty dict, a dict is used as it is, and any other truthy
  value has no attribute \<^verbatim>\<open>get\<close>.\<close>

definition get_data :: "json \<Rightarrow> py_exn + (string \<times> json) list" where
  "get_data body =
     (if \<not> truthy body then Inr []
      else case body of JObj kvs \<Rightarrow> Inr kvs | _ \<Rightarrow> Inl AttributeError)"

text \<open>\<^verbatim>\<open>d.get(k)\<close> (\<^verbatim>\<open>None\<close> when the key is absent) and \<^verbatim>\<open>d.get(k, default)\<close>.\<close>

definition dict_get :: "(string \<times> json) list \<Rightarrow> string \<Rightarrow> json" where
  "dict_get d k = (case map_of d k of None \<Rightarrow> JNull | Some v \<Rightarrow> v)"

definition dict_get_or :: "(string \<times> json) list \<Rightarrow> string \<Rightarrow> json \<Rightarrow> json" where
  "dict_get_or d k dflt = (case map_of d k of None \<Rightarrow> dflt | Some v \<Rightarrow> v)"

text \<open>\<^verbatim>\<open>it.get(...)\<close> on a value that need not be a dict.\<close>

definition attr_get :: "json \<Rightarrow> py_exn + (string \<times> json) list" where
  "attr_get v = (case v of JObj kvs \<Rightarrow> Inr kvs | _ \<Rightarrow> Inl AttributeError)"

text \<open>\<^verbatim>\<open>for it in items\<close>: a list yields its elements, a dict its keys, a string its
  characters; nothing else is iterable.\<close>

definition py_iter :: "json \<Rightarrow> py_exn + json list" where
  "py_iter v =
     (case v of
        JList xs \<Rightarrow> Inr xs
      | JObj kvs \<Rightarrow> Inr (map (\<lambda>kv. JStr (fst kv)) kvs)
      | JStr s \<Rightarrow> Inr (map (\<lambda>c. JStr [c]) s)
      | _ \<Rightarrow> Inl TypeError)"

subsection \<open>Numeric literals in strings\<close>

text \<open>
  \<^verbatim>\<open>int(s)\<close> and \<^verbatim>\<open>float(s)\<close> strip surrounding whitespace and then accept the
  decimal literals of the language reference: digits, with single underscores between
  digits, an optional sign, and for floats an optional fraction and exponent or one of
  the words \<^verbatim>\<open>inf\<close>, \<^verbatim>\<open>infinity\<close>, \<^verbatim>\<open>nan\<close> in any letter case. Strings are byte
  strings here, so only the ASCII digits are digits.
\<close>

definition is_space :: "char \<Rightarrow> bool" where
  "is_space c = (c \<in> set [CHR 0x09, CHR 0x0A, CHR 0x0B, CHR 0x0C, CHR 0x0D,
                          CHR 0x1C, CHR 0x1D, CHR 0x1E, CHR 0x1F, CHR 0x20])"

definition strip :: "string \<Rightarrow> string" where
  "strip s = rev (dropWhile is_space (rev (dropWhile is_space s)))"

definition is_digit :: "char \<Rightarrow> bool" where
  "is_digit c = (c \<in> set ''0123456789'')"

definition digit_val :: "char \<Rightarrow> nat" where
  "digit_val c = of_char c - (48::nat)"

text \<open>\<^verbatim>\<open>digitpart ::= digit (["_"] digit)*\<close>, read from the left with the value so far;
  \<open>None\<close> when the string is not a digit part.\<close>

fun digitpart_from :: "nat \<Rightarrow> string \<Rightarrow> nat option" where
  "digitpart_from acc [] = Some acc"
| "digitpart_from acc [c] = (if is_digit c then Some (10 * acc + digit_val c) else None)"
| "digitpart_from acc (c # d # cs) =
     (if c = CHR ''_'' then (if is_digit d then digitpart_from acc (d # cs) else None)
      else if is_digit c then digitpart_from (10 * acc + digit_val c) (d # cs)
      else None)"

definition digitpart :: "string \<Rightarrow> nat option" where
  "digitpart s = (case s of [] \<Rightarrow> None
                  | c # cs \<Rightarrow> if is_digit c then digitpart_from 0 s else None)"

text \<open>An optional sign: the sign as a factor, and the rest of the string.\<close>

definition split_sign :: "string \<Rightarrow> int \<times> string" where
  "split_sign s = (case s of
                     c # cs \<Rightarrow> if c = CHR ''-'' then (- 1, cs)
                               else if c = CHR ''+'' then (1, cs) else (1, s)
                   | [] \<Rightarrow> (1, s))"

definition int_literal :: "string \<Rightarrow> int option" where
  "int_literal s =
     (case split_sign (strip s) of (sg, body) \<Rightarrow>
        (case digitpart body of None \<Rightarrow> None | Some n \<Rightarrow> Some (sg * int n)))"

definition to_lower :: "char \<Rightarrow> char" where
  "to_lower c = (if (65::nat) \<le> of_char c \<and> of_char c \<le> (90::nat)
                 then char_of (of_char c + (32::nat)) else c)"

text \<open>The number of digits of a digit part (underscores do not count).\<close>

definition digit_count :: "string \<Rightarrow> nat" where
  "digit_count s = length (filter is_digit s)"

text \<open>\<^verbatim>\<open>number ::= [digitpart] "." digitpart | digitpart ["."]\<close>: the value as a rational.\<close>

definition number_literal :: "string \<Rightarrow> rat option" where
  "number_literal s =
     (let ip = takeWhile (\<lambda>c. c \<noteq> CHR ''.'') s; rest = dropWhile (\<lambda>c. c \<noteq> CHR ''.'') s
      in case rest of
           [] \<Rightarrow> map_option of_nat (digitpart ip)
         | _ # fp \<Rightarrow>
             if fp = [] then map_option of_nat (digitpart ip)
             else (case digitpart fp of
                     None \<Rightarrow> None
                   | Some f \<Rightarrow>
                       let frac = of_nat f / (10 ^ digit_count fp)
                       in if ip = [] then Some frac
                          else map_option (\<lambda>i. of_nat i + frac) (digitpart ip)))"

definition exponent_literal :: "string \<Rightarrow> int option" where
  "exponent_literal s =
     (case split_sign s of (sg, body) \<Rightarrow>
        (case digitpart body of None \<Rightarrow> None | Some n \<Rightarrow> Some (sg * int n)))"

definition pow10 :: "int \<Rightarrow> rat" where
  "pow10 e = (if 0 \<le> e then 10 ^ nat e else 1 / (10 ^ nat (- e)))"

definition floatnumber_literal :: "string \<Rightarrow> rat option" where
  "floatnumber_literal s =
     (let is_e = (\<lambda>c. c = CHR ''e'' \<or> c = CHR ''E'');
          m = takeWhile (\<lambda>c. \<not> is_e c) s; rest = dropWhile (\<lambda>c. \<not> is_e c) s
      in case rest of
           [] \<Rightarrow> number_literal m
         | _ # ex \<Rightarrow>
             (case (number_literal m, exponent_literal ex) of
                (Some q, Some e) \<Rightarrow> Some (q * pow10 e)
              | _ \<Rightarrow> None))"

definition float_literal :: "string \<Rightarrow> pyfloat option" where
  "float_literal s =
     (case split_sign (strip s) of (sg, body) \<Rightarrow>
        (let w = map to_lower body
         in if w = ''inf'' \<or> w = ''infinity'' then Some (if sg < 0 then NInf else PInf)
            else if w = ''nan'' then Some NaN
            else map_option (\<lambda>q. Fin (of_int sg * q)) (floatnumber_literal body)))"

subsection \<open>The conversions \<^verbatim>\<open>int(x)\<close>, \<^verbatim>\<open>float(x)\<close> and \<^verbatim>\<open>str(n)\<close>\<close>

text \<open>\<^verbatim>\<open>int(x)\<close>: a float is truncated towards zero, a string is parsed, \<^verbatim>\<open>None\<close>, lists
  and dicts are a \<^verbatim>\<open>TypeError\<close>.\<close>

definition trunc_rat :: "rat \<Rightarrow> int" where
  "trunc_rat q = (if 0 \<le> q then \<lfloor>q\<rfloor> else \<lceil>q\<rceil>)"

fun py_int :: "json \<Rightarrow> py_exn + int" where
  "py_int (JInt n) = Inr n"
| "py_int (JBool b) = Inr (if b then 1 else 0)"
| "py_int (JFloat (Fin q)) = Inr (trunc_rat q)"
| "py_int (JFloat NaN) = Inl ValueError"
| "py_int (JFloat _) = Inl OverflowError"
| "py_int (JStr s) = (case int_literal s of None \<Rightarrow> Inl ValueError | Some n \<Rightarrow> Inr n)"
| "py_int _ = Inl TypeError"

text \<open>\<^verbatim>\<open>float(x)\<close>: an integer too large for a binary64 is an \<^verbatim>\<open>OverflowError\<close>.\<close>

definition float_int_limit :: int where
  "float_int_limit = 2 ^ 1024 - 2 ^ 970"

fun py_float :: "json \<Rightarrow> py_exn + pyfloat" where
  "py_float (JFloat f) = Inr f"
| "py_float (JInt n) = (if \<bar>n\<bar> < float_int_limit then Inr (Fin (of_int n)) else Inl OverflowError)"
| "py_float (JBool b) = Inr (Fin (if b then 1 else 0))"
| "py_float (JStr s) = (case float_literal s of None \<Rightarrow> Inl ValueError | Some f \<Rightarrow> Inr f)"
| "py_float _ = Inl TypeError"

text \<open>\<^verbatim>\<open>str(n)\<close> for an integer.\<close>

fun digits_fuel :: "nat \<Rightarrow> nat \<Rightarrow> string" where
  "digits_fuel 0 n = []"
| "digits_fuel (Suc k) n =
     (if n < 10 then [char_of (48 + n)]
      else digits_fuel k (n div 10) @ [char_of (48 + n mod 10)])"

definition str_nat :: "nat \<Rightarrow> string" where
  "str_nat n = digits_fuel (Suc n) n"

definition py_str_int :: "int \<Rightarrow> string" where
  "py_str_int i = (if i < 0 then CHR ''-'' # str_nat (nat (- i)) else str_nat (nat i))"


text \<open>\<^verbatim>\<open>name.replace(' ', '+')\<close>\<close>

definition replace_space :: "string \<Rightarrow> string" where
  "replace_space s = map (\<lambda>c. if c = CHR '' '' then CHR ''+'' else c) s"

subsection \<open>Timestamps\<close>

record datetime =
  dt_year :: nat
  dt_month :: nat
  dt_day :: nat
  dt_hour :: nat
  dt_minute :: nat
  dt_second :: nat
  dt_microsecond :: nat

definition zero_pad :: "nat \<Rightarrow> nat \<Rightarrow> string" where
  "zero_pad w n = replicate (w - length (str_nat n)) (CHR ''0'') @ str_nat n"

text \<open>\<^verbatim>\<open>datetime.isoformat()\<close>: the microseconds are printed only when they are not zero.\<close>

definition isoformat :: "datetime \<Rightarrow> string" where
  "isoformat d =
     zero_pad 4 (dt_year d) @ ''-'' @ zero_pad 2 (dt_month d) @ ''-'' @ zero_pad 2 (dt_day d)
     @ ''T'' @ zero_pad 2 (dt_hour d) @ '':'' @ zero_pad 2 (dt_minute d) @ '':''
     @ zero_pad 2 (dt_second d)
     @ (if dt_microsecond d = 0 then [] else ''.'' @ zero_pad 6 (dt_microsecond d))"

section \<open>The data model\<close>

text \<open>
  One record per model class, one field per column. A column that a handler fills with a
  value taken from the request as it is holds a \<open>json\<close> value (\<open>JNull\<close> for \<^verbatim>\<open>None\<close>):
  the column types of the classes are declarations for the database, and the Python
  objects hold whatever the handler assigned. A column filled by \<^verbatim>\<open>int(...)\<close> or
  \<^verbatim>\<open>float(...)\<close> holds that number, and a nullable one an option. The text of
  \<^verbatim>\<open>Order.items_json\<close> is kept as the JSON value it encodes (\<^verbatim>\<open>json.dumps\<close> and
  \<^verbatim>\<open>json.loads\<close> are inverse on JSON values), \<open>None\<close> for an empty column.
\<close>

record user =
  u_id :: int
  u_name :: json
  u_email :: json
  u_password_hash :: string
  u_type :: json
  u_restaurant_id :: "int option"

record restaurant =
  r_id :: int
  r_name :: json
  r_logo :: json

record menu_item =
  mi_id :: int
  mi_restaurant_id :: int
  mi_name :: json
  mi_price :: pyfloat
  mi_img :: json
  mi_order_count :: "int option"

record table_row =
  t_id :: int
  t_restaurant_id :: int
  t_num :: json
  t_status :: json

record booking =
  b_id :: int
  b_table_id :: int
  b_user_name :: json
  b_start :: json
  b_end :: json

record income =
  inc_id :: int
  inc_restaurant_id :: int
  inc_amount :: pyfloat
  inc_when :: "datetime option"

record feedback =
  fb_id :: int
  fb_restaurant_id :: int
  fb_user_name :: json
  fb_when :: "datetime option"
  fb_food_rating :: "int option"
  fb_service_rating :: "int option"
  fb_text :: json

record order_row =
  o_id :: string
  o_restaurant_id :: int
  o_user_name :: json
  o_items_json :: "json option"
  o_total :: "pyfloat option"
  o_method :: json
  o_when :: "datetime option"

text \<open>The database: every table as the list of its rows in stored order.\<close>

record store =
  users :: "user list"
  restaurants :: "restaurant list"
  menu_items :: "menu_item list"
  tables :: "table_row list"
  bookings :: "booking list"
  incomes :: "income list"
  feedbacks :: "feedback list"
  orders :: "order_row list"

definition empty_store :: store where
  "empty_store = \<lparr>users = [], restaurants = [], menu_items = [], tables = [], bookings = [],
                   incomes = [], feedbacks = [], orders = []\<rparr>"

text \<open>An integer primary key is assigned by the database: one more than the largest
  key in use.\<close>

definition next_id :: "int list \<Rightarrow> int" where
  "next_id ids = fold max ids 0 + 1"

subsection \<open>Relationships\<close>

definition restaurant_menu_items :: "store \<Rightarrow> restaurant \<Rightarrow> menu_item list" where
  "restaurant_menu_items st r = filter (\<lambda>m. mi_restaurant_id m = r_id r) (menu_items st)"

definition restaurant_tables :: "store \<Rightarrow> restaurant \<Rightarrow> table_row list" where
  "restaurant_tables st r = filter (\<lambda>t. t_restaurant_id t = r_id r) (tables st)"

definition restaurant_orders :: "store \<Rightarrow> restaurant \<Rightarrow> order_row list" where
  "restaurant_orders st r = filter (\<lambda>ord. o_restaurant_id ord = r_id r) (orders st)"

definition restaurant_incomes :: "store \<Rightarrow> restaurant \<Rightarrow> income list" where
  "restaurant_incomes st r = filter (\<lambda>i. inc_restaurant_id i = r_id r) (incomes st)"

definition restaurant_feedback :: "store \<Rightarrow> restaurant \<Rightarrow> feedback list" where
  "restaurant_feedback st r = filter (\<lambda>f. fb_restaurant_id f = r_id r) (feedbacks st)"

definition table_bookings :: "store \<Rightarrow> table_row \<Rightarrow> booking list" where
  "table_bookings st t = filter (\<lambda>b. b_table_id b = t_id t) (bookings st)"

text \<open>The back reference \<^verbatim>\<open>booking.table\<close>.\<close>

definition booking_table :: "store \<Rightarrow> booking \<Rightarrow> table_row option" where
  "booking_table st b = find (\<lambda>t. t_id t = b_table_id b) (tables st)"

section \<open>Serializers\<close>

definition json_of_int_opt :: "int option \<Rightarrow> json" where
  "json_of_int_opt v = (case v of None \<Rightarrow> JNull | Some n \<Rightarrow> JInt n)"

definition json_of_float_opt :: "pyfloat option \<Rightarrow> json" where
  "json_of_float_opt v = (case v of None \<Rightarrow> JNull | Some f \<Rightarrow> JFloat f)"

text \<open>\<^verbatim>\<open>self.when.isoformat()\<close>: \<^verbatim>\<open>None\<close> has no such method.\<close>

definition when_isoformat :: "datetime option \<Rightarrow> py_exn + json" where
  "when_isoformat w = (case w of None \<Rightarrow> Inl AttributeError | Some d \<Rightarrow> Inr (JStr (isoformat d)))"

text \<open>The expression of lines 45 and 59:
  \<^verbatim>\<open>self.logo or f"https://ui-avatars.com/api/?name={self.name.replace(' ','+')}&&background=101827&color=fff"\<close>.
  Only a string has the method \<^verbatim>\<open>replace\<close>.\<close>

definition avatar_url :: "string \<Rightarrow> string" where
  "avatar_url nm = ''https://ui-avatars.com/api/?name='' @ replace_space nm
                   @ ''&&background=101827&color=fff''"

definition restaurant_logo :: "restaurant \<Rightarrow> py_exn + json" where
  "restaurant_logo r =
     (if truthy (r_logo r) then Inr (r_logo r)
      else case r_name r of JStr nm \<Rightarrow> Inr (JStr (avatar_url nm)) | _ \<Rightarrow> Inl AttributeError)"

definition to_list_item :: "store \<Rightarrow> restaurant \<Rightarrow> py_exn + json" where
  "to_list_item st r =
     (case restaurant_logo r of
        Inl e \<Rightarrow> Inl e
      | Inr logo \<Rightarrow>
          Inr (JObj [(''id'', JInt (r_id r)),
                     (''name'', r_name r),
                     (''logo'', logo),
                     (''menuCount'', JInt (int (length (restaurant_menu_items st r)))),
                     (''tableCount'', JInt (int (length (restaurant_tables st r))))]))"

definition menu_item_to_dict :: "menu_item \<Rightarrow> json" where
  "menu_item_to_dict m =
     JObj [(''id'', JInt (mi_id m)),
           (''name'', mi_name m),
           (''price'', JFloat (mi_price m)),
           (''img'', py_or (mi_img m) (JStr ''https://via.placeholder.com/400x200?text=Dish'')),
           (''orderCount'', json_of_int_opt (mi_order_count m))]"

definition table_to_dict :: "table_row \<Rightarrow> json" where
  "table_to_dict t = JObj [(''id'', JInt (t_id t)), (''num'', t_num t), (''status'', t_status t)]"

definition booking_to_dict :: "store \<Rightarrow> booking \<Rightarrow> json" where
  "booking_to_dict st b =
     JObj [(''id'', JInt (b_id b)),
           (''tableNum'', (case booking_table st b of
                             Some t \<Rightarrow> t_num t
                           | None \<Rightarrow> JStr (py_str_int (b_table_id b)))),
           (''userName'', b_user_name b),
           (''start'', b_start b),
           (''end'', b_end b)]"

definition feedback_to_dict :: "feedback \<Rightarrow> py_exn + json" where
  "feedback_to_dict f =
     (case when_isoformat (fb_when f) of
        Inl e \<Rightarrow> Inl e
      | Inr w \<Rightarrow>
          Inr (JObj [(''id'', JInt (fb_id f)),
                     (''userName'', fb_user_name f),
                     (''when'', w),
                     (''foodRating'', json_of_int_opt (fb_food_rating f)),
                     (''serviceRating'', json_of_int_opt (fb_service_rating f)),
                     (''text'', fb_text f)]))"

definition order_to_dict :: "order_row \<Rightarrow> py_exn + json" where
  "order_to_dict ord =
     (let items = (case o_items_json ord of None \<Rightarrow> JList [] | Some v \<Rightarrow> v)
      in case when_isoformat (o_when ord) of
           Inl e \<Rightarrow> Inl e
         | Inr w \<Rightarrow>
             Inr (JObj [(''id'', JStr (o_id ord)),
                        (''userName'', o_user_name ord),
                        (''items'', items),
                        (''total'', json_of_float_opt (o_total ord)),
                        (''method'', o_method ord),
                        (''when'', w)]))"

text \<open>A list comprehension whose element expression may raise: the first exception
  ends it.\<close>

fun map_exn :: "('a \<Rightarrow> py_exn + 'b) \<Rightarrow> 'a list \<Rightarrow> py_exn + 'b list" where
  "map_exn f [] = Inr []"
| "map_exn f (x # xs) =
     (case f x of
        Inl e \<Rightarrow> Inl e
      | Inr y \<Rightarrow> (case map_exn f xs of Inl e \<Rightarrow> Inl e | Inr ys \<Rightarrow> Inr (y # ys)))"

text \<open>Lines 51 to 54 of \<^verbatim>\<open>to_full\<close>: the two nested loops that append to \<^verbatim>\<open>bookings\<close>.\<close>

definition to_full_bookings :: "store \<Rightarrow> restaurant \<Rightarrow> json list" where
  "to_full_bookings st r =
     fold (\<lambda>t acc. fold (\<lambda>b acc'. acc' @ [booking_to_dict st b]) (table_bookings st t) acc)
          (restaurant_tables st r) []"

definition to_full :: "store \<Rightarrow> restaurant \<Rightarrow> py_exn + json" where
  "to_full st r =
     (let bookings = to_full_bookings st r
      in case restaurant_logo r of
           Inl e \<Rightarrow> Inl e
         | Inr logo \<Rightarrow>
        (case map_exn order_to_dict (restaurant_orders st r) of
           Inl e \<Rightarrow> Inl e
         | Inr os \<Rightarrow>
        (case map_exn feedback_to_dict (restaurant_feedback st r) of
           Inl e \<Rightarrow> Inl e
         | Inr fs \<Rightarrow>
             Inr (JObj [(''id'', JInt (r_id r)),
                        (''name'', r_name r),
                        (''logo'', logo),
                        (''menu'', JList (map menu_item_to_dict (restaurant_menu_items st r))),
                        (''tables'', JList (map table_to_dict (restaurant_tables st r))),
                        (''orders'', JList os),
                        (''incomes'', JList (map (\<lambda>i. JFloat (inc_amount i)) (restaurant_incomes st r))),
                        (''feedback'', JList fs),
                        (''bookings'', JList bookings)]))))"

section \<open>Request handlers\<close>

text \<open>
  A handler takes the database and the request and returns the response with the
  database after the request. A response is a status with a JSON body, the 404 of
  \<^verbatim>\<open>get_or_404\<close>, or an exception that no handler catches (the framework answers 500).
  The writes of a request reach the database at \<^verbatim>\<open>db.session.commit()\<close>; a request
  that ends before it leaves the database as it was.

  What the program takes from outside is a parameter of the handler: the password
  hashing and checking functions (which may raise), the clock and the UUID generator.
  A query compares a stored value with the value given by equality; how the database
  driver would convert or refuse a value of another type than the column's is not
  modelled.
\<close>

datatype response = Response nat json | NotFound | Unhandled py_exn

definition error_body :: "string \<Rightarrow> json" where
  "error_body msg = JObj [(''error'', JStr msg)]"

definition message_body :: "string \<Rightarrow> json" where
  "message_body msg = JObj [(''message'', JStr msg)]"

text \<open>\<^verbatim>\<open>Restaurant.query.get_or_404(rid)\<close>\<close>

definition get_or_404 :: "store \<Rightarrow> int \<Rightarrow> restaurant option" where
  "get_or_404 st rid = find (\<lambda>r. r_id r = rid) (restaurants st)"

text \<open>A row found by \<^verbatim>\<open>query.filter_by(...).first()\<close> and then assigned to is changed
  where it is stored: the first row that matches.\<close>

fun update_first :: "('a \<Rightarrow> bool) \<Rightarrow> ('a \<Rightarrow> 'a) \<Rightarrow> 'a list \<Rightarrow> 'a list" where
  "update_first P f [] = []"
| "update_first P f (x # xs) = (if P x then f x # xs else x # update_first P f xs)"

subsection \<open>\<^verbatim>\<open>POST /api/register\<close>\<close>

definition register ::
  "(json \<Rightarrow> py_exn + string) \<Rightarrow> store \<Rightarrow> json \<Rightarrow> response \<times> store" where
  "register generate_password_hash st body =
     (case get_data body of
        Inl e \<Rightarrow> (Unhandled e, st)
      | Inr data \<Rightarrow>
          let type' = dict_get data ''type'';
              name = dict_get data ''name'';
              email = dict_get data ''email'';
              password = dict_get data ''password''
          in if \<not> (truthy type' \<and> truthy name \<and> truthy email \<and> truthy password)
             then (Response 400 (error_body ''Missing fields''), st)
             else if find (\<lambda>u. u_email u = email) (users st) \<noteq> None
             then (Response 400 (error_body ''Email already registered''), st)
             else (case generate_password_hash password of
                     Inl e \<Rightarrow> (Unhandled e, st)
                   | Inr password_hash \<Rightarrow>
                       let usr = \<lparr>u_id = next_id (map u_id (users st)), u_name = name,
                                  u_email = email, u_password_hash = password_hash,
                                  u_type = type', u_restaurant_id = None\<rparr>
                       in if type' = JStr ''restaurant''
                          then let r = \<lparr>r_id = next_id (map r_id (restaurants st)),
                                        r_name = name, r_logo = JNull\<rparr>
                               in (Response 201 (message_body ''Registration successful''),
                                   st\<lparr>restaurants := restaurants st @ [r],
                                      users := users st @ [usr\<lparr>u_restaurant_id := Some (r_id r)\<rparr>]\<rparr>)
                          else (Response 201 (message_body ''Registration successful''),
                                st\<lparr>users := users st @ [usr]\<rparr>)))"

subsection \<open>\<^verbatim>\<open>POST /api/login\<close>\<close>


subsection \<open>\<^verbatim>\<open>GET /api/restaurants\<close>, \<^verbatim>\<open>GET /api/restaurants/<rid>\<close>, \<^verbatim>\<open>GET /api/health\<close>\<close>




subsection \<open>\<^verbatim>\<open>POST /api/restaurants/<rid>/menu\<close>\<close>

definition add_menu_item :: "store \<Rightarrow> int \<Rightarrow> json \<Rightarrow> response \<times> store" where
  "add_menu_item st rid body =
     (case get_or_404 st rid of
        None \<Rightarrow> (NotFound, st)
      | Some r \<Rightarrow>
     (case get_data body of
        Inl e \<Rightarrow> (Unhandled e, st)
      | Inr data \<Rightarrow>
          let name = dict_get data ''name'';
              price = dict_get data ''price'';
              img = dict_get data ''img''
          in if \<not> truthy name \<or> price = JNull
             then (Response 400 (error_body ''Missing name or price''), st)
             else (case py_float price of
                     Inl e \<Rightarrow> (Unhandled e, st)
                   | Inr p \<Rightarrow>
                       let mi = \<lparr>mi_id = next_id (map mi_id (menu_items st)),
                                 mi_restaurant_id = r_id r, mi_name = name, mi_price = p,
                                 mi_img = img, mi_order_count = Some 0\<rparr>
                       in (Response 201 (JObj [(''message'', JStr ''Menu item added''),
                                               (''item'', menu_item_to_dict mi)]),
                           st\<lparr>menu_items := menu_items st @ [mi]\<rparr>))))"

subsection \<open>\<^verbatim>\<open>POST /api/restaurants/<rid>/tables\<close>\<close>


subsection \<open>\<^verbatim>\<open>POST /api/restaurants/<rid>/income\<close>\<close>

text \<open>The \<^verbatim>\<open>try\<close> catches \<^verbatim>\<open>ValueError\<close> and \<^verbatim>\<open>TypeError\<close> and nothing else.\<close>

definition add_income :: "datetime \<Rightarrow> store \<Rightarrow> int \<Rightarrow> json \<Rightarrow> response \<times> store" where
  "add_income utcnow st rid body =
     (case get_or_404 st rid of
        None \<Rightarrow> (NotFound, st)
      | Some r \<Rightarrow>
     (case get_data body of
        Inl e \<Rightarrow> (Unhandled e, st)
      | Inr data \<Rightarrow>
          let amount = dict_get data ''amount''
          in (case py_float amount of
                Inl e \<Rightarrow>
                  if e = ValueError \<or> e = TypeError
                  then (Response 400 (error_body ''Invalid amount''), st)
                  else (Unhandled e, st)
              | Inr amt \<Rightarrow>
                  let inc = \<lparr>inc_id = next_id (map inc_id (incomes st)),
                             inc_restaurant_id = r_id r, inc_amount = amt,
                             inc_when = Some utcnow\<rparr>
                  in (Response 201 (message_body ''Income added''),
                      st\<lparr>incomes := incomes st @ [inc]\<rparr>))))"

subsection \<open>\<^verbatim>\<open>POST /api/restaurants/<rid>/feedback\<close>\<close>

definition add_feedback :: "datetime \<Rightarrow> store \<Rightarrow> int \<Rightarrow> json \<Rightarrow> response \<times> store" where
  "add_feedback utcnow st rid body =
     (case get_or_404 st rid of
        None \<Rightarrow> (NotFound, st)
      | Some r \<Rightarrow>
     (case get_data body of
        Inl e \<Rightarrow> (Unhandled e, st)
      | Inr data \<Rightarrow>
          let user_name = dict_get_or data ''userName'' (JStr ''Anonymous'')
          in (case py_int (dict_get_or data ''foodRating'' (JInt 0)) of
                Inl e \<Rightarrow> (Unhandled e, st)
              | Inr food_rating \<Rightarrow>
             (case py_int (dict_get_or data ''serviceRating'' (JInt 0)) of
                Inl e \<Rightarrow> (Unhandled e, st)
              | Inr service_rating \<Rightarrow>
                  let text = dict_get_or data ''text'' (JStr []);
                      fb = \<lparr>fb_id = next_id (map fb_id (feedbacks st)),
                            fb_restaurant_id = r_id r, fb_user_name = user_name,
                            fb_when = Some utcnow, fb_food_rating = Some food_rating,
                            fb_service_rating = Some service_rating, fb_text = text\<rparr>
                  in (Response 201 (message_body ''Feedback submitted''),
                      st\<lparr>feedbacks := feedbacks st @ [fb]\<rparr>)))))"

subsection \<open>\<^verbatim>\<open>POST /api/restaurants/<rid>/orders\<close>\<close>

text \<open>\<^verbatim>\<open>mi.order_count or 0\<close>\<close>

definition count_or_0 :: "int option \<Rightarrow> int" where
  "count_or_0 c = (case c of None \<Rightarrow> 0 | Some n \<Rightarrow> n)"

text \<open>\<^verbatim>\<open>MenuItem.query.filter_by(id=mid, restaurant_id=r.id)\<close>\<close>

definition item_matches :: "json \<Rightarrow> int \<Rightarrow> menu_item \<Rightarrow> bool" where
  "item_matches mid rid m = (JInt (mi_id m) = mid \<and> mi_restaurant_id m = rid)"

text \<open>Lines 311 and 312: the id and the quantity of a line item.\<close>

definition line_fields :: "json \<Rightarrow> py_exn + json \<times> int" where
  "line_fields it =
     (case attr_get it of
        Inl e \<Rightarrow> Inl e
      | Inr d \<Rightarrow>
          let mid = dict_get d ''id''
          in (case py_int (dict_get_or d ''qty'' (JInt 1)) of
                Inl e \<Rightarrow> Inl e
              | Inr qty \<Rightarrow> Inr (mid, qty)))"

text \<open>
  Lines 313 to 316, on the menu items of the session. The query flushes the pending
  order first, and an order id that is already a primary key (\<open>dup\<close>) fails there with
  an \<^verbatim>\<open>IntegrityError\<close>.
\<close>

definition count_line :: "bool \<Rightarrow> int \<Rightarrow> json \<Rightarrow> int \<Rightarrow> menu_item list \<Rightarrow> py_exn + menu_item list" where
  "count_line dup rid mid qty ms =
     (if truthy mid
      then (if dup then Inl IntegrityError
            else (case find (item_matches mid rid) ms of
                    Some mi \<Rightarrow>
                      Inr (update_first (item_matches mid rid)
                             (\<lambda>m. m\<lparr>mi_order_count := Some (count_or_0 (mi_order_count m) + qty)\<rparr>)
                             ms)
                  | None \<Rightarrow> Inr ms))
      else Inr ms)"

text \<open>The loop of lines 310 to 316.\<close>

definition order_line :: "bool \<Rightarrow> int \<Rightarrow> json \<Rightarrow> menu_item list \<Rightarrow> py_exn + menu_item list" where
  "order_line dup rid it ms =
     (case line_fields it of
        Inl e \<Rightarrow> Inl e
      | Inr (mid, qty) \<Rightarrow> count_line dup rid mid qty ms)"

fun order_loop :: "bool \<Rightarrow> int \<Rightarrow> json list \<Rightarrow> menu_item list \<Rightarrow> py_exn + menu_item list" where
  "order_loop dup rid [] ms = Inr ms"
| "order_loop dup rid (it # its) ms =
     (case order_line dup rid it ms of
        Inl e \<Rightarrow> Inl e
      | Inr ms' \<Rightarrow> order_loop dup rid its ms')"

definition create_order ::
  "datetime \<Rightarrow> string \<Rightarrow> store \<Rightarrow> int \<Rightarrow> json \<Rightarrow> response \<times> store" where
  "create_order utcnow uuid4 st rid body =
     (case get_or_404 st rid of
        None \<Rightarrow> (NotFound, st)
      | Some r \<Rightarrow>
     (case get_data body of
        Inl e \<Rightarrow> (Unhandled e, st)
      | Inr data \<Rightarrow>
          let user_name = dict_get_or data ''userName'' (JStr ''Guest'');
              items = dict_get_or data ''items'' (JList []);
              method = dict_get_or data ''method'' (JStr ''online'')
          in (case py_float (dict_get_or data ''total'' (JInt 0)) of
                Inl e \<Rightarrow> (Unhandled e, st)
              | Inr total' \<Rightarrow>
                  let order_id = take 8 uuid4;
                      ord = \<lparr>o_id = order_id, o_restaurant_id = r_id r, o_user_name = user_name,
                             o_items_json = Some items, o_total = Some total',
                             o_method = method, o_when = Some utcnow\<rparr>;
                      dup = (order_id \<in> set (map o_id (orders st)))
                  in (case py_iter items of
                        Inl e \<Rightarrow> (Unhandled e, st)
                      | Inr its \<Rightarrow>
                     (case order_loop dup (r_id r) its (menu_items st) of
                        Inl e \<Rightarrow> (Unhandled e, st)
                      | Inr ms \<Rightarrow>
                          if dup then (Unhandled IntegrityError, st)
                          else (Response 201 (JObj [(''message'', JStr ''Order placed''),
                                                    (''orderId'', JStr order_id)]),
                                st\<lparr>orders := orders st @ [ord], menu_items := ms\<rparr>))))))"

subsection \<open>\<^verbatim>\<open>init_db\<close>\<close>

text \<open>The demo data is written only when there is no restaurant yet.\<close>

definition init_db :: "store \<Rightarrow> store" where
  "init_db st =
     (if restaurants st \<noteq> [] then st
      else let rid = next_id (map r_id (restaurants st));
               demo_rest = \<lparr>r_id = rid, r_name = JStr ''Spice & Flavor'',
                             r_logo = JStr ''https://ui-avatars.com/api/?name=Spice+Flavor&background=ff6b35&color=fff''\<rparr>;
               m0 = next_id (map mi_id (menu_items st));
               t0 = next_id (map t_id (tables st));
               new_items =
                 [\<lparr>mi_id = m0, mi_restaurant_id = rid, mi_name = JStr ''Masala Dosa'',
                   mi_price = Fin 120,
                   mi_img = JStr ''https://via.placeholder.com/400x200?text=Masala+Dosa'',
                   mi_order_count = Some 45\<rparr>,
                  \<lparr>mi_id = m0 + 1, mi_restaurant_id = rid, mi_name = JStr ''Paneer Butter Masala'',
                   mi_price = Fin 240,
                   mi_img = JStr ''https://via.placeholder.com/400x200?text=Paneer+Butter+Masala'',
                   mi_order_count = Some 32\<rparr>,
                  \<lparr>mi_id = m0 + 2, mi_restaurant_id = rid, mi_name = JStr ''Biryani'',
                   mi_price = Fin 280,
                   mi_img = JStr ''https://via.placeholder.com/400x200?text=Biryani'',
                   mi_order_count = Some 67\<rparr>];
               new_tables =
                 [\<lparr>t_id = t0, t_restaurant_id = rid, t_num = JStr ''1'', t_status = JStr ''Available''\<rparr>,
                  \<lparr>t_id = t0 + 1, t_restaurant_id = rid, t_num = JStr ''2'', t_status = JStr ''Available''\<rparr>,
                  \<lparr>t_id = t0 + 2, t_restaurant_id = rid, t_num = JStr ''3'', t_status = JStr ''Occupied''\<rparr>]
           in st\<lparr>restaurants := restaurants st @ [demo_rest],
                 menu_items := menu_items st @ new_items,
                 tables := tables st @ new_tables\<rparr>)"

subsection \<open>The application as a whole\<close>

text \<open>What one request takes from outside the program.\<close>

record env =
  generate_password_hash :: "json \<Rightarrow> py_exn + string"
  check_password_hash :: "string \<Rightarrow> json \<Rightarrow> py_exn + bool"
  utcnow :: datetime
  uuid4 :: string




section \<open>Vocabulary of the properties\<close>

text \<open>A field of a serialized view, and of the result of a serializer that may raise.\<close>

definition view_field :: "json \<Rightarrow> string \<Rightarrow> json option" where
  "view_field v k = (case v of JObj kvs \<Rightarrow> map_of kvs k | _ \<Rightarrow> None)"

definition result_field :: "py_exn + json \<Rightarrow> string \<Rightarrow> json option" where
  "result_field res k = (case res of Inr v \<Rightarrow> view_field v k | Inl _ \<Rightarrow> None)"

text \<open>The quantities that the lines of an order add to a menu item \<open>m\<close> of restaurant
  \<open>rid\<close>: those of the lines whose id is truthy and is the id of \<open>m\<close>.\<close>

definition line_hits :: "int \<Rightarrow> (json \<times> int) list \<Rightarrow> menu_item \<Rightarrow> int list" where
  "line_hits rid lines m =
     map snd (filter (\<lambda>l. truthy (fst l) \<and> item_matches (fst l) rid m) lines)"

definition credited :: "int \<Rightarrow> (json \<times> int) list \<Rightarrow> menu_item \<Rightarrow> menu_item" where
  "credited rid lines m =
     (if line_hits rid lines m = [] then m
      else m\<lparr>mi_order_count :=
               Some (count_or_0 (mi_order_count m) + sum_list (line_hits rid lines m))\<rparr>)"





definition count_grows :: "menu_item \<Rightarrow> menu_item \<Rightarrow> bool" where
  "count_grows m m' =
     (mi_id m' = mi_id m \<and> count_or_0 (mi_order_count m) \<le> count_or_0 (mi_order_count m'))"

definition counts_grow :: "menu_item list \<Rightarrow> menu_item list \<Rightarrow> bool" where
  "counts_grow ms ms' = (length ms \<le> length ms' \<and> list_all2 count_grows ms (take (length ms) ms'))"




subsection \<open>Example data\<close>

definition demo_store :: store where
  "demo_store = init_db empty_store"

definition demo_bookings :: "booking list" where
  "demo_bookings =
     [\<lparr>b_id = 1, b_table_id = 2, b_user_name = JStr ''Asha'', b_start = JStr ''18:00'', b_end = JStr ''19:00''\<rparr>,
      \<lparr>b_id = 2, b_table_id = 1, b_user_name = JStr ''Ravi'', b_start = JStr ''18:30'', b_end = JStr ''20:00''\<rparr>,
      \<lparr>b_id = 3, b_table_id = 2, b_user_name = JStr ''Meena'', b_start = JStr ''20:00'', b_end = JStr ''21:00''\<rparr>]"

definition booked_store :: store where
  "booked_store = demo_store\<lparr>bookings := demo_bookings\<rparr>"

definition demo_now :: datetime where
  "demo_now = \<lparr>dt_year = 2024, dt_month = 5, dt_day = 17, dt_hour = 12, dt_minute = 30,
               dt_second = 0, dt_microsecond = 0\<rparr>"

definition demo_uuid :: string where
  "demo_uuid = ''3f2b8c1a-9d4e-4f6a-8b7c-1e2d3c4b5a69''"

text \<open>A stand-in for the password functions of the library: only a string has a hash.\<close>

definition demo_hash :: "json \<Rightarrow> py_exn + string" where
  "demo_hash p = (case p of JStr s \<Rightarrow> Inr (''hashed:'' @ s) | _ \<Rightarrow> Inl AttributeError)"



definition cafe_registration :: json where
  "cafe_registration =
     JObj [(''type'', JStr ''restaurant''), (''name'', JStr ''Cafe''),
           (''email'', JStr ''cafe@example.org''), (''password'', JStr ''secret'')]"

definition guest_registration :: json where
  "guest_registration =
     JObj [(''type'', JStr ''customer''), (''name'', JStr ''Guest''),
           (''email'', JStr ''guest@example.org''), (''password'', JStr ''letmein'')]"







section \<open>Evaluation of the example data\<close>

lemma demo_store_eval:
  "demo_store =
     \<lparr>users = [],
      restaurants = [\<lparr>r_id = 1, r_name = JStr ''Spice & Flavor'',
                      r_logo = JStr ''https://ui-avatars.com/api/?name=Spice+Flavor&background=ff6b35&color=fff''\<rparr>],
      menu_items =
        [\<lparr>mi_id = 1, mi_restaurant_id = 1, mi_name = JStr ''Masala Dosa'', mi_price = Fin 120,
          mi_img = JStr ''https://via.placeholder.com/400x200?text=Masala+Dosa'',
          mi_order_count = Some 45\<rparr>,
         \<lparr>mi_id = 2, mi_restaurant_id = 1, mi_name = JStr ''Paneer Butter Masala'', mi_price = Fin 240,
          mi_img = JStr ''https://via.placeholder.com/400x200?text=Paneer+Butter+Masala'',
          mi_order_count = Some 32\<rparr>,
         \<lparr>mi_id = 3, mi_restaurant_id = 1, mi_name = JStr ''Biryani'', mi_price = Fin 280,
          mi_img = JStr ''https://via.placeholder.com/400x200?text=Biryani'',
          mi_order_count = Some 67\<rparr>],
      tables =
        [\<lparr>t_id = 1, t_restaurant_id = 1, t_num = JStr ''1'', t_status = JStr ''Available''\<rparr>,
         \<lparr>t_id = 2, t_restaurant_id = 1, t_num = JStr ''2'', t_status = JStr ''Available''\<rparr>,
         \<lparr>t_id = 3, t_restaurant_id = 1, t_num = JStr ''3'', t_status = JStr ''Occupied''\<rparr>],
      bookings = [], incomes = [], feedbacks = [], orders = []\<rparr>"
  by (simp add: demo_store_def init_db_def empty_store_def next_id_def Let_def)

lemma demo_restaurant: "get_or_404 demo_store 1 = Some (hd (restaurants demo_store))"
  by (simp add: get_or_404_def demo_store_eval)

section \<open>The full restaurant view\<close>

lemma fold_append_map: "fold (\<lambda>b acc. acc @ [f b]) bs acc = acc @ map f bs"
  by (induction bs arbitrary: acc) simp_all

lemma fold_nested_concat:
  "fold (\<lambda>t acc. fold (\<lambda>b acc'. acc' @ [f b]) (g t) acc) ts acc
     = acc @ concat (map (\<lambda>t. map f (g t)) ts)"
  by (induction ts arbitrary: acc) (simp_all add: fold_append_map)

lemma to_full_bookings_concat:
  "to_full_bookings st r
     = concat (map (\<lambda>t. map (booking_to_dict st) (table_bookings st t)) (restaurant_tables st r))"
  unfolding to_full_bookings_def by (simp add: fold_nested_concat)

lemma to_full_bookings_field:
  "to_full st r = Inr v \<Longrightarrow> view_field v ''bookings'' = Some (JList (to_full_bookings st r))"
  by (auto simp: to_full_def view_field_def Let_def split: sum.splits)

text \<open>
  C1. Whenever the full view of a restaurant is produced, its \<open>bookings\<close> field is the
  concatenation, over the restaurant's tables in stored order, of the serializations of
  each table's bookings in stored order; the length of that list is the sum of the
  numbers of bookings of the restaurant's tables.
\<close>

theorem to_full_bookings_flattened:
  "(\<forall>v. to_full st r = Inr v \<longrightarrow>
       view_field v ''bookings''
         = Some (JList (concat (map (\<lambda>t. map (booking_to_dict st) (table_bookings st t))
                                    (restaurant_tables st r)))))
   \<and> length (concat (map (\<lambda>t. map (booking_to_dict st) (table_bookings st t))
                         (restaurant_tables st r)))
       = sum_list (map (\<lambda>t. length (table_bookings st t)) (restaurant_tables st r))"
proof (intro conjI allI impI)
  fix v assume "to_full st r = Inr v"
  then show "view_field v ''bookings''
         = Some (JList (concat (map (\<lambda>t. map (booking_to_dict st) (table_bookings st t))
                                    (restaurant_tables st r))))"
    using to_full_bookings_field to_full_bookings_concat by metis
next
  show "length (concat (map (\<lambda>t. map (booking_to_dict st) (table_bookings st t))
                         (restaurant_tables st r)))
       = sum_list (map (\<lambda>t. length (table_bookings st t)) (restaurant_tables st r))"
    by (simp add: length_concat comp_def)
qed

text \<open>On the example data the restaurant has three tables with 1, 2 and 0 bookings, and
  the bookings come out by table, not in the order in which they are stored.\<close>

theorem to_full_bookings_flattened_witness:
  "\<exists>v. to_full booked_store (hd (restaurants booked_store)) = Inr v
       \<and> view_field v ''bookings''
           = Some (JList (map (booking_to_dict booked_store)
                            [demo_bookings ! 1, demo_bookings ! 0, demo_bookings ! 2]))
       \<and> sum_list (map (\<lambda>t. length (table_bookings booked_store t))
                       (restaurant_tables booked_store (hd (restaurants booked_store)))) = 3"
proof -
  have ok: "\<exists>v. to_full booked_store (hd (restaurants booked_store)) = Inr v"
    by (simp add: to_full_def booked_store_def demo_store_eval restaurant_logo_def
          restaurant_orders_def restaurant_feedback_def)
  then obtain v where v: "to_full booked_store (hd (restaurants booked_store)) = Inr v" ..
  have flat: "concat (map (\<lambda>t. map (booking_to_dict booked_store) (table_bookings booked_store t))
                        (restaurant_tables booked_store (hd (restaurants booked_store))))
              = map (booking_to_dict booked_store)
                  [demo_bookings ! 1, demo_bookings ! 0, demo_bookings ! 2]"
    by (simp add: booked_store_def demo_store_eval demo_bookings_def restaurant_tables_def
          table_bookings_def)
  have cnt: "sum_list (map (\<lambda>t. length (table_bookings booked_store t))
                       (restaurant_tables booked_store (hd (restaurants booked_store)))) = 3"
    by (simp add: booked_store_def demo_store_eval demo_bookings_def restaurant_tables_def
          table_bookings_def)
  from to_full_bookings_flattened [of booked_store "hd (restaurants booked_store)"] v flat cnt
  show ?thesis by simp
qed

section \<open>The placeholder logo\<close>

lemma to_list_item_logo:
  "restaurant_logo r = Inr l \<Longrightarrow> result_field (to_list_item st r) ''logo'' = Some l"
  by (simp add: to_list_item_def result_field_def view_field_def)

lemma to_full_logo:
  "to_full st r = Inr v \<Longrightarrow> restaurant_logo r = Inr l \<Longrightarrow> view_field v ''logo'' = Some l"
  by (auto simp: to_full_def view_field_def Let_def split: sum.splits)

text \<open>
  C3. For a restaurant whose name is the string \<open>nm\<close> and whose stored logo is absent,
  the \<open>logo\<close> field of the list view, and of the full view whenever that is produced, is
  \<^verbatim>\<open>https://ui-avatars.com/api/?name=\<close>, then \<open>nm\<close> with every space replaced by
  \<^verbatim>\<open>+\<close>, then \<^verbatim>\<open>&&background=101827&color=fff\<close>; for the name \<^verbatim>\<open>Spice & Flavor\<close> the
  embedded token is \<^verbatim>\<open>Spice+&+Flavor\<close>. A logo that is set (a string that is not empty)
  is returned as it is in both views.
\<close>

theorem logo_placeholder_or_stored:
  "(r_logo r = JNull \<and> r_name r = JStr nm \<longrightarrow>
      result_field (to_list_item st r) ''logo''
        = Some (JStr (''https://ui-avatars.com/api/?name=''
                      @ map (\<lambda>c. if c = CHR '' '' then CHR ''+'' else c) nm
                      @ ''&&background=101827&color=fff''))
      \<and> (\<forall>v. to_full st r = Inr v \<longrightarrow>
             view_field v ''logo''
               = Some (JStr (''https://ui-avatars.com/api/?name=''
                             @ map (\<lambda>c. if c = CHR '' '' then CHR ''+'' else c) nm
                             @ ''&&background=101827&color=fff''))))
   \<and> (r_logo r = JNull \<and> r_name r = JStr ''Spice & Flavor'' \<longrightarrow>
        result_field (to_list_item st r) ''logo''
          = Some (JStr ''https://ui-avatars.com/api/?name=Spice+&+Flavor&&background=101827&color=fff''))
   \<and> (r_logo r = JStr l \<and> l \<noteq> [] \<longrightarrow>
        result_field (to_list_item st r) ''logo'' = Some (JStr l)
        \<and> (\<forall>v. to_full st r = Inr v \<longrightarrow> view_field v ''logo'' = Some (JStr l)))"
proof (intro conjI impI allI)
  assume a: "r_logo r = JNull \<and> r_name r = JStr nm"
  then have l: "restaurant_logo r
      = Inr (JStr (''https://ui-avatars.com/api/?name=''
                   @ map (\<lambda>c. if c = CHR '' '' then CHR ''+'' else c) nm
                   @ ''&&background=101827&color=fff''))"
    by (simp add: restaurant_logo_def avatar_url_def replace_space_def)
  show "result_field (to_list_item st r) ''logo''
        = Some (JStr (''https://ui-avatars.com/api/?name=''
                      @ map (\<lambda>c. if c = CHR '' '' then CHR ''+'' else c) nm
                      @ ''&&background=101827&color=fff''))"
    by (rule to_list_item_logo [OF l])
  show "view_field v ''logo''
               = Some (JStr (''https://ui-avatars.com/api/?name=''
                             @ map (\<lambda>c. if c = CHR '' '' then CHR ''+'' else c) nm
                             @ ''&&background=101827&color=fff''))"
    if "to_full st r = Inr v" for v
    by (rule to_full_logo [OF that l])
next
  assume a: "r_logo r = JNull \<and> r_name r = JStr ''Spice & Flavor''"
  then have l: "restaurant_logo r
      = Inr (JStr ''https://ui-avatars.com/api/?name=Spice+&+Flavor&&background=101827&color=fff'')"
    by (simp add: restaurant_logo_def avatar_url_def replace_space_def)
  show "result_field (to_list_item st r) ''logo''
          = Some (JStr ''https://ui-avatars.com/api/?name=Spice+&+Flavor&&background=101827&color=fff'')"
    by (rule to_list_item_logo [OF l])
next
  assume a: "r_logo r = JStr l \<and> l \<noteq> []"
  then have l: "restaurant_logo r = Inr (JStr l)"
    by (simp add: restaurant_logo_def)
  show "result_field (to_list_item st r) ''logo'' = Some (JStr l)"
    by (rule to_list_item_logo [OF l])
  show "view_field v ''logo'' = Some (JStr l)" if "to_full st r = Inr v" for v
    by (rule to_full_logo [OF that l])
qed

text \<open>A restaurant registered as \<^verbatim>\<open>Spice & Flavor\<close> has no logo; the demo restaurant
  has one.\<close>

theorem logo_placeholder_or_stored_witness:
  "result_field (to_list_item demo_store \<lparr>r_id = 2, r_name = JStr ''Spice & Flavor'', r_logo = JNull\<rparr>)
      ''logo''
     = Some (JStr ''https://ui-avatars.com/api/?name=Spice+&+Flavor&&background=101827&color=fff'')
   \<and> (\<exists>v. to_full demo_store \<lparr>r_id = 2, r_name = JStr ''Spice & Flavor'', r_logo = JNull\<rparr> = Inr v
          \<and> view_field v ''logo''
              = Some (JStr ''https://ui-avatars.com/api/?name=Spice+&+Flavor&&background=101827&color=fff''))
   \<and> result_field (to_list_item demo_store (hd (restaurants demo_store))) ''logo''
       = Some (JStr ''https://ui-avatars.com/api/?name=Spice+Flavor&background=ff6b35&color=fff'')
   \<and> (\<exists>v. to_full demo_store (hd (restaurants demo_store)) = Inr v
          \<and> view_field v ''logo''
              = Some (JStr ''https://ui-avatars.com/api/?name=Spice+Flavor&background=ff6b35&color=fff''))"
proof -
  let ?r = "\<lparr>r_id = 2, r_name = JStr ''Spice & Flavor'', r_logo = JNull\<rparr>"
  let ?d = "hd (restaurants demo_store)"
  have ok1: "\<exists>v. to_full demo_store ?r = Inr v"
    by (simp add: to_full_def demo_store_eval restaurant_logo_def
          restaurant_orders_def restaurant_feedback_def)
  have ok2: "\<exists>v. to_full demo_store ?d = Inr v"
    by (simp add: to_full_def demo_store_eval restaurant_logo_def
          restaurant_orders_def restaurant_feedback_def)
  have d: "r_logo ?d = JStr ''https://ui-avatars.com/api/?name=Spice+Flavor&background=ff6b35&color=fff''"
    by (simp add: demo_store_eval)
  from ok1 obtain v1 where v1: "to_full demo_store ?r = Inr v1" ..
  from ok2 obtain v2 where v2: "to_full demo_store ?d = Inr v2" ..
  have s: "map (\<lambda>c. if c = CHR '' '' then CHR ''+'' else c) ''Spice & Flavor'' = ''Spice+&+Flavor''"
    by simp
  from logo_placeholder_or_stored [of ?r "''Spice & Flavor''" demo_store "[]"]
       logo_placeholder_or_stored
         [of ?d "[]" demo_store
             "''https://ui-avatars.com/api/?name=Spice+Flavor&background=ff6b35&color=fff''"]
       v1 v2 d s
  show ?thesis by simp
qed

section \<open>Numeric fields that do not convert\<close>

lemma py_float_abc: "float_literal ''abc'' = None"
  by (simp add: float_literal_def split_sign_def strip_def is_space_def floatnumber_literal_def
        number_literal_def digitpart_def is_digit_def to_lower_def)

lemma py_int_abc: "int_literal ''abc'' = None"
  by (simp add: int_literal_def split_sign_def strip_def is_space_def digitpart_def is_digit_def)

lemma float_int_limit_pos: "0 < float_int_limit"
proof -
  have "(2::int) ^ 970 < 2 ^ 1024" by (rule power_strict_increasing) simp_all
  then show ?thesis by (simp add: float_int_limit_def)
qed


text \<open>
  C9. The claim asks that a numeric field that does not convert is answered with status
  400 and an error body. \<^verbatim>\<open>add_income\<close> does so, the other handlers do not: with the
  string \<^verbatim>\<open>abc\<close> as menu price, as order total, as the quantity of an order line or as
  a feedback rating, the \<^verbatim>\<open>ValueError\<close> of the conversion is not caught. No handler
  writes anything in these cases.
\<close>

theorem numeric_coercion_unhandled:
  "add_menu_item demo_store 1 (JObj [(''name'', JStr ''Dosa''), (''price'', JStr ''abc'')])
     = (Unhandled ValueError, demo_store)
   \<and> create_order demo_now demo_uuid demo_store 1 (JObj [(''items'', JList []), (''total'', JStr ''abc'')])
     = (Unhandled ValueError, demo_store)
   \<and> create_order demo_now demo_uuid demo_store 1
        (JObj [(''items'', JList [JObj [(''id'', JInt 1), (''qty'', JStr ''abc'')]])])
     = (Unhandled ValueError, demo_store)
   \<and> add_feedback demo_now demo_store 1 (JObj [(''foodRating'', JStr ''abc'')])
     = (Unhandled ValueError, demo_store)
   \<and> add_income demo_now demo_store 1 (JObj [(''amount'', JStr ''abc'')])
     = (Response 400 (JObj [(''error'', JStr ''Invalid amount'')]), demo_store)"
proof (intro conjI)
  show "add_menu_item demo_store 1 (JObj [(''name'', JStr ''Dosa''), (''price'', JStr ''abc'')])
     = (Unhandled ValueError, demo_store)"
    by (simp add: add_menu_item_def demo_restaurant get_data_def dict_get_def py_float_abc)
  show "create_order demo_now demo_uuid demo_store 1 (JObj [(''items'', JList []), (''total'', JStr ''abc'')])
     = (Unhandled ValueError, demo_store)"
    by (simp add: create_order_def demo_restaurant get_data_def dict_get_or_def py_float_abc)
  show "create_order demo_now demo_uuid demo_store 1
        (JObj [(''items'', JList [JObj [(''id'', JInt 1), (''qty'', JStr ''abc'')]])])
     = (Unhandled ValueError, demo_store)"
    by (simp add: create_order_def demo_restaurant get_data_def dict_get_or_def py_iter_def
          float_int_limit_pos order_line_def line_fields_def attr_get_def py_int_abc Let_def)
  show "add_feedback demo_now demo_store 1 (JObj [(''foodRating'', JStr ''abc'')])
     = (Unhandled ValueError, demo_store)"
    by (simp add: add_feedback_def demo_restaurant get_data_def dict_get_or_def py_int_abc)
  show "add_income demo_now demo_store 1 (JObj [(''amount'', JStr ''abc'')])
     = (Response 400 (JObj [(''error'', JStr ''Invalid amount'')]), demo_store)"
    by (simp add: add_income_def demo_restaurant get_data_def dict_get_def py_float_abc
          error_body_def)
qed

text \<open>The responses alone: the menu request with the price \<^verbatim>\<open>abc\<close> ends in the
  exception, the income request with the amount \<^verbatim>\<open>abc\<close> in status 400.\<close>

theorem numeric_coercion_unhandled_witness:
  "fst (add_menu_item demo_store 1 (JObj [(''name'', JStr ''Dosa''), (''price'', JStr ''abc'')]))
     = Unhandled ValueError
   \<and> fst (add_income demo_now demo_store 1 (JObj [(''amount'', JStr ''abc'')]))
     = Response 400 (JObj [(''error'', JStr ''Invalid amount'')])"
  using numeric_coercion_unhandled by simp

section \<open>Feedback defaults\<close>




section \<open>Login\<close>




section \<open>Registration\<close>

lemma fold_max_ge: "(a::int) \<le> fold max xs a"
  by (induction xs arbitrary: a) (auto intro: order_trans [OF max.cobounded2])

lemma fold_max_bound: "x \<in> set xs \<Longrightarrow> (x::int) \<le> fold max xs a"
proof (induction xs arbitrary: a)
  case Nil
  then show ?case by simp
next
  case (Cons y ys)
  show ?case
  proof (cases "x = y")
    case True
    have "y \<le> max y a" by simp
    also have "\<dots> \<le> fold max ys (max y a)" by (rule fold_max_ge)
    finally show ?thesis using True by simp
  next
    case False
    with Cons.prems have "x \<in> set ys" by simp
    then show ?thesis using Cons.IH by simp
  qed
qed

lemma next_id_fresh: "next_id ids \<notin> set ids"
proof
  assume "next_id ids \<in> set ids"
  then have "next_id ids \<le> fold max ids 0" by (rule fold_max_bound)
  then show False by (simp add: next_id_def)
qed

text \<open>
  C7. A registration that succeeds with the type \<^verbatim>\<open>restaurant\<close> adds exactly one
  restaurant, with a key that no restaurant had, and exactly one user, whose restaurant
  reference is that key. A registration that succeeds with the type \<^verbatim>\<open>customer\<close> (or
  any type other than \<^verbatim>\<open>restaurant\<close>) adds no restaurant and exactly one user, whose
  restaurant reference is null.
\<close>

theorem register_restaurant_link:
  assumes ok: "register gph st body = (Response 201 b, st')"
    and data: "get_data body = Inr data"
  shows "(dict_get data ''type'' = JStr ''restaurant'' \<longrightarrow>
            (\<exists>rest usr. restaurants st' = restaurants st @ [rest]
                \<and> users st' = users st @ [usr]
                \<and> r_id rest \<notin> set (map r_id (restaurants st))
                \<and> u_restaurant_id usr = Some (r_id rest)
                \<and> u_type usr = JStr ''restaurant''))
         \<and> (dict_get data ''type'' = JStr ''customer'' \<longrightarrow>
            restaurants st' = restaurants st
            \<and> (\<exists>usr. users st' = users st @ [usr] \<and> u_restaurant_id usr = None
                       \<and> u_type usr = JStr ''customer''))
         \<and> (dict_get data ''type'' \<noteq> JStr ''restaurant'' \<longrightarrow>
            restaurants st' = restaurants st
            \<and> (\<exists>usr. users st' = users st @ [usr] \<and> u_restaurant_id usr = None))"
proof -
  from ok data obtain h where
    st': "st' = (if dict_get data ''type'' = JStr ''restaurant''
                then st\<lparr>restaurants := restaurants st @
                          [\<lparr>r_id = next_id (map r_id (restaurants st)),
                            r_name = dict_get data ''name'', r_logo = JNull\<rparr>],
                        users := users st @
                          [\<lparr>u_id = next_id (map u_id (users st)), u_name = dict_get data ''name'',
                            u_email = dict_get data ''email'', u_password_hash = h,
                            u_type = dict_get data ''type'',
                            u_restaurant_id = Some (next_id (map r_id (restaurants st)))\<rparr>]\<rparr>
                else st\<lparr>users := users st @
                          [\<lparr>u_id = next_id (map u_id (users st)), u_name = dict_get data ''name'',
                            u_email = dict_get data ''email'', u_password_hash = h,
                            u_type = dict_get data ''type'', u_restaurant_id = None\<rparr>]\<rparr>)"
    by (auto simp: register_def Let_def split: if_splits sum.splits)
  show ?thesis
    using st' next_id_fresh [of "map r_id (restaurants st)"] by auto
qed

text \<open>The two example registrations on the seeded database: the first adds restaurant 2
  and links it, the second adds no restaurant.\<close>

theorem register_restaurant_link_witness:
  "(\<exists>rest usr. restaurants (snd (register demo_hash demo_store cafe_registration))
                  = restaurants demo_store @ [rest]
       \<and> users (snd (register demo_hash demo_store cafe_registration))
                  = users demo_store @ [usr]
       \<and> u_restaurant_id usr = Some (r_id rest))
   \<and> restaurants (snd (register demo_hash demo_store guest_registration))
       = restaurants demo_store
   \<and> (\<exists>usr. users (snd (register demo_hash demo_store guest_registration))
                = users demo_store @ [usr] \<and> u_restaurant_id usr = None)"
proof -
  have r1: "\<exists>s. register demo_hash demo_store cafe_registration
                  = (Response 201 (message_body ''Registration successful''), s)"
    by (simp add: register_def cafe_registration_def get_data_def dict_get_def demo_store_eval
          demo_hash_def Let_def)
  have r2: "\<exists>s. register demo_hash demo_store guest_registration
                  = (Response 201 (message_body ''Registration successful''), s)"
    by (simp add: register_def guest_registration_def get_data_def dict_get_def demo_store_eval
          demo_hash_def Let_def)
  from r1 obtain s1 where s1: "register demo_hash demo_store cafe_registration
                  = (Response 201 (message_body ''Registration successful''), s1)" ..
  from r2 obtain s2 where s2: "register demo_hash demo_store guest_registration
                  = (Response 201 (message_body ''Registration successful''), s2)" ..
  have g1: "get_data cafe_registration
              = Inr [(''type'', JStr ''restaurant''), (''name'', JStr ''Cafe''),
                     (''email'', JStr ''cafe@example.org''), (''password'', JStr ''secret'')]"
    by (simp add: cafe_registration_def get_data_def)
  have g2: "get_data guest_registration
              = Inr [(''type'', JStr ''customer''), (''name'', JStr ''Guest''),
                     (''email'', JStr ''guest@example.org''), (''password'', JStr ''letmein'')]"
    by (simp add: guest_registration_def get_data_def)
  from register_restaurant_link [OF s1 g1] register_restaurant_link [OF s2 g2] s1 s2
  show ?thesis by (auto simp: dict_get_def)
qed

section \<open>What each handler leaves alone\<close>










section \<open>Duplicate emails\<close>








section \<open>The table upsert\<close>










section \<open>Order placement and the order counts\<close>


lemma item_matches_credited [simp]:
  "item_matches mid rid (credited rid' lines m) = item_matches mid rid m"
  by (simp add: item_matches_def credited_def)

lemma line_hits_credited [simp]:
  "line_hits rid lines (credited rid' lines' m) = line_hits rid lines m"
  by (simp add: line_hits_def)

lemma mi_id_credited [simp]: "mi_id (credited rid lines m) = mi_id m"
  by (simp add: credited_def)

lemma credited_Nil [simp]: "credited rid [] m = m"
  by (simp add: credited_def line_hits_def)

lemma line_hits_update [simp]:
  "line_hits rid lines (m\<lparr>mi_order_count := x\<rparr>) = line_hits rid lines m"
  by (simp add: line_hits_def item_matches_def)















section \<open>The order count over sequences of requests\<close>




lemma count_grows_refl [simp]: "count_grows m m"
  by (simp add: count_grows_def)


lemma counts_grow_nth:
  "counts_grow ms ms'
     \<longleftrightarrow> length ms \<le> length ms' \<and> (\<forall>i < length ms. count_grows (ms ! i) (ms' ! i))"
  by (auto simp: counts_grow_def list_all2_conv_all_nth)

lemma counts_grow_refl [simp]: "counts_grow ms ms"
  by (simp add: counts_grow_nth)

lemma counts_grow_append [simp]: "counts_grow ms (ms @ xs)"
  by (simp add: counts_grow_nth nth_append)














end
